theory Spec2Isabelle
  imports Complex_Main
begin

section \<open>Data model (prisma schema)\<close>

text \<open>
  The tables of the relational store are lists of rows, in insertion order. Identifiers
  are the schema's \<open>String @id\<close> columns. Only the columns that the route handlers
  modelled below read or write are kept: the timestamps (\<open>createdAt\<close>, \<open>updatedAt\<close>)
  and the postal fields of an address play no part in any handler decision.
  The \<open>Int\<close> columns are \<open>int\<close>. The \<open>Float\<close> columns \<open>price\<close> and \<open>total\<close> hold
  JavaScript numbers (IEEE doubles); their type is the parameter \<open>'n\<close> of the records,
  and nothing is assumed of it.
\<close>

datatype UserRole = CUSTOMER | MANAGER | ADMIN

datatype OrderStatus = PENDING | PROCESSING | SHIPPED | DELIVERED | CANCELLED

datatype ProductCategory = ELECTRONICS | CLOTHING | FOOD | BOOKS | OTHER

record 'n Product =
  p_id :: string
  p_name :: string
  p_description :: string
  p_image :: "string option"
  p_price :: "'n"
  p_stock :: int
  p_category :: ProductCategory

record 'n Order =
  o_id :: string
  o_userId :: string
  o_status :: OrderStatus
  o_total :: "'n"
  o_addressId :: string

record 'n OrderItem =
  oi_id :: string
  oi_orderId :: string
  oi_productId :: string
  oi_quantity :: int
  oi_price :: "'n"

record Review =
  r_id :: string
  r_userId :: string
  r_productId :: string
  r_rating :: int
  r_comment :: "string option"

record Cart =
  c_id :: string
  c_userId :: string

record CartItem =
  ci_id :: string
  ci_cartId :: string
  ci_productId :: string
  ci_quantity :: int

record Address =
  a_id :: string
  a_userId :: string

record 'n Store =
  products :: "'n Product list"
  orders :: "'n Order list"
  orderItems :: "'n OrderItem list"
  reviews :: "Review list"
  carts :: "Cart list"
  cartItems :: "CartItem list"
  addresses :: "Address list"

text \<open>
  The session that \<open>getServerSession\<close> yields: \<open>None\<close> when the caller is not signed
  in, otherwise the user's id and role (\<open>session.user.id\<close>, \<open>session.user.role\<close>).
\<close>

record SessionUser =
  su_id :: string
  su_role :: UserRole

type_synonym Session = "SessionUser option"

section \<open>Error responses\<close>

text \<open>
  One constructor for each distinct error response that the handlers build with
  \<open>NextResponse.json({ error: ... }, { status: ... })\<close>; \<open>status_code\<close> is the
  HTTP status the source attaches to it. Two places that build the same body with the
  same status share a constructor, as a client cannot tell them apart.
\<close>

datatype error =
    Unauthorized                      \<comment> \<open>'Unauthorized', 401\<close>
  | Forbidden                         \<comment> \<open>'Forbidden', 403\<close>
  | OnlyCustomers                     \<comment> \<open>'Only customers can submit reviews', 403\<close>
  | NotPurchased                      \<comment> \<open>'You must purchase and receive this product ...', 403\<close>
  | AddressRequired                   \<comment> \<open>'Shipping address is required', 400\<close>
  | InvalidAddress                    \<comment> \<open>'Invalid shipping address', 400\<close>
  | CartEmpty                         \<comment> \<open>'Your cart is empty', 400\<close>
  | NotEnoughStockFor string string   \<comment> \<open>'Not enough stock available for NAME', productId, 400\<close>
  | NotEnoughStock                    \<comment> \<open>'Not enough stock available', 400\<close>
  | ValidQuantityRequired             \<comment> \<open>'Valid quantity is required', 400\<close>
  | ProductIdRequired                 \<comment> \<open>'Product ID is required', 400\<close>
  | RatingOutOfRange                  \<comment> \<open>'Rating must be between 1 and 5', 400\<close>
  | OrderIdRequired                   \<comment> \<open>'Order ID is required', 400\<close>
  | InvalidStatusValue                \<comment> \<open>'Invalid status value', 400\<close>
  | MissingRequiredFields             \<comment> \<open>'Missing required fields', 400\<close>
  | CartItemNotFound                  \<comment> \<open>'Cart item not found', 404\<close>
  | OrderNotFound                     \<comment> \<open>'Order not found', 404\<close>
  | ProductNotFound                   \<comment> \<open>'Product not found', 404\<close>
  | Failed                            \<comment> \<open>the \<open>catch\<close> branch of a handler, 500\<close>

fun status_code :: "error \<Rightarrow> nat" where
  "status_code Unauthorized = 401"
| "status_code Forbidden = 403"
| "status_code OnlyCustomers = 403"
| "status_code NotPurchased = 403"
| "status_code CartItemNotFound = 404"
| "status_code OrderNotFound = 404"
| "status_code ProductNotFound = 404"
| "status_code Failed = 500"
| "status_code _ = 400"

section \<open>Checkout: POST /api/orders\<close>

type_synonym 'n CartItemWithProduct = "CartItem \<times> 'n Product"

text \<open>\<open>prisma.address.findUnique({ where: { id: addressId, userId: session.user.id } })\<close>\<close>

definition findAddress :: "'n Store \<Rightarrow> string \<Rightarrow> string \<Rightarrow> Address option" where
  "findAddress s addressId userId =
     find (\<lambda>a. a_id a = addressId \<and> a_userId a = userId) (addresses s)"

text \<open>\<open>prisma.cart.findUnique({ where: { userId } })\<close>, without the included items.\<close>

definition findCart :: "'n Store \<Rightarrow> string \<Rightarrow> Cart option" where
  "findCart s userId = find (\<lambda>c. c_userId c = userId) (carts s)"

definition findProduct :: "'n Store \<Rightarrow> string \<Rightarrow> 'n Product option" where
  "findProduct s productId = find (\<lambda>p. p_id p = productId) (products s)"

text \<open>
  \<open>include: { items: { include: { product: true } } }\<close>: the lines of the cart, each
  joined with its product. The relation \<open>CartItem.product\<close> is required; a line whose
  product row is missing makes the query throw, which is the result \<open>None\<close> here.
\<close>

definition includeProduct :: "'n Store \<Rightarrow> CartItem \<Rightarrow> 'n CartItemWithProduct option" where
  "includeProduct s ci = map_option (Pair ci) (findProduct s (ci_productId ci))"

definition cartLines :: "'n Store \<Rightarrow> Cart \<Rightarrow> 'n CartItemWithProduct list option" where
  "cartLines s cart =
     those (map (includeProduct s) (filter (\<lambda>ci. ci_cartId ci = c_id cart) (cartItems s)))"

text \<open>
  The arithmetic of JavaScript numbers, as far as the handlers use it: the number that
  an integer (an \<open>Int\<close> column, the literal \<open>0\<close>) is, and the rounding \<open>+\<close> and \<open>*\<close> of
  doubles. The operations are a parameter of the handlers; no law (associativity,
  exactness) is assumed of them.
\<close>

record 'n Arith =
  n_of_int :: "int \<Rightarrow> 'n"
  n_add :: "'n \<Rightarrow> 'n \<Rightarrow> 'n"
  n_mul :: "'n \<Rightarrow> 'n \<Rightarrow> 'n"

text \<open>
  \<open>cart.items.reduce((sum, item) => sum + item.product.price * item.quantity, 0)\<close>:
  the left fold over the lines in cart order, starting from the number 0.
\<close>

definition cartTotal :: "'n Arith \<Rightarrow> 'n CartItemWithProduct list \<Rightarrow> 'n" where
  "cartTotal num items =
     foldl (\<lambda>sum (ci, p). n_add num sum (n_mul num (p_price p) (n_of_int num (ci_quantity ci))))
           (n_of_int num 0) items"

text \<open>
  The loop that verifies the stock: the first line, in cart order, that asks for more
  than its product's stock ends the request with that product's name and id.
\<close>

fun verifyStock :: "'n CartItemWithProduct list \<Rightarrow> error option" where
  "verifyStock [] = None"
| "verifyStock ((ci, p) # rest) =
     (if ci_quantity ci > p_stock p then Some (NotEnoughStockFor (p_name p) (p_id p))
      else verifyStock rest)"

text \<open>
  What the handler holds when it enters \<open>prisma.$transaction\<close>: the caller, the address,
  the total it computed and the cart with its lines as they were read.
\<close>

record 'n Checkout =
  ck_userId :: string
  ck_addressId :: string
  ck_total :: "'n"
  ck_cart :: Cart
  ck_items :: "'n CartItemWithProduct list"

text \<open>
  The handler up to the transaction: the session, the address and the cart are
  checked in this order, and nothing is written. A missing \<open>addressId\<close> is the empty
  string (both are falsy).
\<close>

definition checkoutRead ::
  "'n Arith \<Rightarrow> 'n Store \<Rightarrow> Session \<Rightarrow> string \<Rightarrow> error + 'n Checkout" where
  "checkoutRead num s session addressId =
     (case session of
        None \<Rightarrow> Inl Unauthorized
      | Some u \<Rightarrow>
          if addressId = [] then Inl AddressRequired
          else (case findAddress s addressId (su_id u) of
             None \<Rightarrow> Inl InvalidAddress
           | Some address \<Rightarrow>
               (case findCart s (su_id u) of
                  None \<Rightarrow> Inl CartEmpty
                | Some cart \<Rightarrow>
                    (case cartLines s cart of
                       None \<Rightarrow> Inl Failed
                     | Some items \<Rightarrow>
                         if length items = 0 then Inl CartEmpty
                         else (case verifyStock items of
                            Some e \<Rightarrow> Inl e
                          | None \<Rightarrow>
                              Inr \<lparr> ck_userId = su_id u, ck_addressId = addressId,
                                    ck_total = cartTotal num items, ck_cart = cart,
                                    ck_items = items \<rparr>)))))"

text \<open>
  \<open>tx.product.update({ where: { id }, data: { stock: { decrement: quantity } } })\<close>:
  the update throws when no row has the id (\<open>None\<close>); otherwise the stock of the row
  is decremented in the table, with no lower bound.
\<close>

definition decrementStock :: "string \<Rightarrow> int \<Rightarrow> 'n Product list \<Rightarrow> 'n Product list option" where
  "decrementStock productId quantity ps =
     (if list_ex (\<lambda>p. p_id p = productId) ps
      then Some (map (\<lambda>p. if p_id p = productId
                           then p\<lparr>p_stock := p_stock p - quantity\<rparr> else p) ps)
      else None)"

fun updateStocks :: "'n CartItemWithProduct list \<Rightarrow> 'n Product list \<Rightarrow> 'n Product list option" where
  "updateStocks [] ps = Some ps"
| "updateStocks ((ci, p) # rest) ps =
     (case decrementStock (ci_productId ci) (ci_quantity ci) ps of
        None \<Rightarrow> None
      | Some ps' \<Rightarrow> updateStocks rest ps')"

text \<open>
  The rows of \<open>items: { create: cart.items.map(...) }\<close>. The ids that the schema's
  \<open>@default(cuid())\<close> generates are taken from a parameter \<open>cuid\<close>: the order gets
  \<open>cuid 0\<close> and the k-th item \<open>cuid (k + 1)\<close>.
\<close>

definition newOrderItems ::
  "(nat \<Rightarrow> string) \<Rightarrow> 'n CartItemWithProduct list \<Rightarrow> 'n OrderItem list" where
  "newOrderItems cuid items =
     map (\<lambda>(k, (ci, p)). \<lparr> oi_id = cuid (Suc k), oi_orderId = cuid 0,
                             oi_productId = ci_productId ci,
                             oi_quantity = ci_quantity ci,
                             oi_price = p_price p \<rparr>)
         (enumerate 0 items)"

text \<open>
  The transaction, run on the store as it is when the transaction starts: it inserts
  the order with its items, decrements the stocks line by line and deletes the cart's
  lines. A throw inside it rolls everything back and reaches the handler's \<open>catch\<close>.
  The response is the created order with its items.
\<close>

definition checkoutTx ::
  "(nat \<Rightarrow> string) \<Rightarrow> 'n Store \<Rightarrow> 'n Checkout \<Rightarrow> 'n Store \<times> (error + 'n Order \<times> 'n OrderItem list)" where
  "checkoutTx cuid s ck =
     (let newOrder = \<lparr> o_id = cuid 0, o_userId = ck_userId ck, o_status = PENDING,
                       o_total = ck_total ck, o_addressId = ck_addressId ck \<rparr>;
          newItems = newOrderItems cuid (ck_items ck)
      in case updateStocks (ck_items ck) (products s) of
           None \<Rightarrow> (s, Inl Failed)
         | Some ps \<Rightarrow>
             (s\<lparr> products := ps,
                 orders := orders s @ [newOrder],
                 orderItems := orderItems s @ newItems,
                 cartItems := filter (\<lambda>ci. ci_cartId ci \<noteq> c_id (ck_cart ck)) (cartItems s) \<rparr>,
              Inr (newOrder, newItems)))"

text \<open>The handler run without interruption: the checks, then the transaction.\<close>

definition POST_orders ::
  "'n Arith \<Rightarrow> (nat \<Rightarrow> string) \<Rightarrow> 'n Store \<Rightarrow> Session \<Rightarrow> string
     \<Rightarrow> 'n Store \<times> (error + 'n Order \<times> 'n OrderItem list)" where
  "POST_orders num cuid s session addressId =
     (case checkoutRead num s session addressId of
        Inl e \<Rightarrow> (s, Inl e)
      | Inr ck \<Rightarrow> checkoutTx cuid s ck)"

section \<open>Order status: PATCH /api/orders/[id]\<close>

definition validStatuses :: "string list" where
  "validStatuses = [''PENDING'', ''PROCESSING'', ''SHIPPED'', ''DELIVERED'', ''CANCELLED'']"

text \<open>
  The value of the schema's enum \<open>OrderStatus\<close> that a string names; the store refuses
  any other string.
\<close>

definition statusOf :: "string \<Rightarrow> OrderStatus option" where
  "statusOf str =
     (if str = ''PENDING'' then Some PENDING
      else if str = ''PROCESSING'' then Some PROCESSING
      else if str = ''SHIPPED'' then Some SHIPPED
      else if str = ''DELIVERED'' then Some DELIVERED
      else if str = ''CANCELLED'' then Some CANCELLED
      else None)"

definition findOrder :: "'n Store \<Rightarrow> string \<Rightarrow> 'n Order option" where
  "findOrder s orderId = find (\<lambda>ord. o_id ord = orderId) (orders s)"

text \<open>
  The handler checks the session, the role, the id, that the requested status is one
  of \<open>validStatuses\<close> and that the order exists; then it writes the requested status.
  The order's current status is never read. A missing \<open>status\<close> is the empty string.
\<close>

definition PATCH_order ::
  "'n Store \<Rightarrow> Session \<Rightarrow> string \<Rightarrow> string \<Rightarrow> 'n Store \<times> (error + 'n Order)" where
  "PATCH_order s session orderId status =
     (case session of
        None \<Rightarrow> (s, Inl Unauthorized)
      | Some u \<Rightarrow>
          if su_role u \<noteq> MANAGER \<and> su_role u \<noteq> ADMIN then (s, Inl Forbidden)
          else if orderId = [] then (s, Inl OrderIdRequired)
          else if status = [] \<or> status \<notin> set validStatuses
            then (s, Inl InvalidStatusValue)
          else (case findOrder s orderId of
             None \<Rightarrow> (s, Inl OrderNotFound)
           | Some existingOrder \<Rightarrow>
               (case statusOf status of
                  None \<Rightarrow> (s, Inl Failed)
                | Some st \<Rightarrow>
                    (s\<lparr> orders := map (\<lambda>ord. if o_id ord = orderId
                                              then ord\<lparr>o_status := st\<rparr> else ord)
                                       (orders s) \<rparr>,
                     Inr (existingOrder\<lparr>o_status := st\<rparr>)))))"

section \<open>Reviews: POST /api/reviews\<close>

text \<open>
  \<open>prisma.orderItem.findFirst({ where: { productId,
     order: { userId: session.user.id, status: 'DELIVERED' } } })\<close>
\<close>

definition hasPurchased :: "'n Store \<Rightarrow> string \<Rightarrow> string \<Rightarrow> 'n OrderItem option" where
  "hasPurchased s userId productId =
     find (\<lambda>oi. oi_productId oi = productId \<and>
                 list_ex (\<lambda>ord. o_id ord = oi_orderId oi \<and> o_userId ord = userId \<and>
                                 o_status ord = DELIVERED) (orders s))
          (orderItems s)"

definition findReview :: "'n Store \<Rightarrow> string \<Rightarrow> string \<Rightarrow> Review option" where
  "findReview s userId productId =
     find (\<lambda>r. r_userId r = userId \<and> r_productId r = productId) (reviews s)"

text \<open>
  The body's \<open>productId\<close> is a string (missing: empty), \<open>rating\<close> an integer (missing:
  0, which is falsy as well) and \<open>comment\<close> a string or \<open>null\<close>, as the review form
  sends them. \<open>newId\<close> is the id that the store gives a created review. The second
  component of a success tells the status: 201 for a created review, 200 for an update.
\<close>

definition POST_reviews ::
  "string \<Rightarrow> 'n Store \<Rightarrow> Session \<Rightarrow> string \<Rightarrow> int \<Rightarrow> string option
     \<Rightarrow> 'n Store \<times> (error + Review \<times> nat)" where
  "POST_reviews newId s session productId rating comment =
     (case session of
        None \<Rightarrow> (s, Inl Unauthorized)
      | Some u \<Rightarrow>
          if su_role u \<noteq> CUSTOMER then (s, Inl OnlyCustomers)
          else if productId = [] then (s, Inl ProductIdRequired)
          else if rating = 0 \<or> rating < 1 \<or> rating > 5 then (s, Inl RatingOutOfRange)
          else (case findProduct s productId of
             None \<Rightarrow> (s, Inl ProductNotFound)
           | Some product \<Rightarrow>
               (case hasPurchased s (su_id u) productId of
                  None \<Rightarrow> (s, Inl NotPurchased)
                | Some item \<Rightarrow>
                    (case findReview s (su_id u) productId of
                       Some existingReview \<Rightarrow>
                         (s\<lparr> reviews :=
                               map (\<lambda>r. if r_id r = r_id existingReview
                                        then r\<lparr>r_rating := rating, r_comment := comment\<rparr>
                                        else r)
                                   (reviews s) \<rparr>,
                          Inr (existingReview\<lparr>r_rating := rating, r_comment := comment\<rparr>, 200))
                     | None \<Rightarrow>
                         (let review = \<lparr> r_id = newId, r_userId = su_id u,
                                          r_productId = productId, r_rating = rating,
                                          r_comment = comment \<rparr>
                          in (s\<lparr> reviews := reviews s @ [review] \<rparr>,
                              Inr (review, 201)))))))"

section \<open>Cart lines: PATCH and DELETE /api/cart/items/[id]\<close>

definition findCartItem :: "'n Store \<Rightarrow> string \<Rightarrow> CartItem option" where
  "findCartItem s itemId = find (\<lambda>ci. ci_id ci = itemId) (cartItems s)"

definition cartById :: "'n Store \<Rightarrow> string \<Rightarrow> Cart option" where
  "cartById s cartId = find (\<lambda>c. c_id c = cartId) (carts s)"

text \<open>
  \<open>include: { cart: true, product: true }\<close>: both relations are required, so a line
  whose cart or product row is missing makes the query throw (the \<open>catch\<close> branch).
  A missing \<open>quantity\<close> is 0.
\<close>

definition PATCH_cart_item ::
  "'n Store \<Rightarrow> Session \<Rightarrow> string \<Rightarrow> int \<Rightarrow> 'n Store \<times> (error + CartItem)" where
  "PATCH_cart_item s session itemId quantity =
     (case session of
        None \<Rightarrow> (s, Inl Unauthorized)
      | Some u \<Rightarrow>
          if quantity = 0 \<or> quantity < 1 then (s, Inl ValidQuantityRequired)
          else (case findCartItem s itemId of
             None \<Rightarrow> (s, Inl CartItemNotFound)
           | Some cartItem \<Rightarrow>
               (case (cartById s (ci_cartId cartItem), findProduct s (ci_productId cartItem)) of
                  (Some cart, Some product) \<Rightarrow>
                    if c_userId cart \<noteq> su_id u then (s, Inl Unauthorized)
                    else if quantity > p_stock product then (s, Inl NotEnoughStock)
                    else (s\<lparr> cartItems := map (\<lambda>ci. if ci_id ci = itemId
                                                      then ci\<lparr>ci_quantity := quantity\<rparr> else ci)
                                               (cartItems s) \<rparr>,
                          Inr (cartItem\<lparr>ci_quantity := quantity\<rparr>))
                | _ \<Rightarrow> (s, Inl Failed))))"

definition DELETE_cart_item ::
  "'n Store \<Rightarrow> Session \<Rightarrow> string \<Rightarrow> 'n Store \<times> (error + unit)" where
  "DELETE_cart_item s session itemId =
     (case session of
        None \<Rightarrow> (s, Inl Unauthorized)
      | Some u \<Rightarrow>
          (case findCartItem s itemId of
             None \<Rightarrow> (s, Inl CartItemNotFound)
           | Some cartItem \<Rightarrow>
               (case cartById s (ci_cartId cartItem) of
                  None \<Rightarrow> (s, Inl Failed)
                | Some cart \<Rightarrow>
                    if c_userId cart \<noteq> su_id u then (s, Inl Unauthorized)
                    else (s\<lparr> cartItems := filter (\<lambda>ci. ci_id ci \<noteq> itemId) (cartItems s) \<rparr>,
                          Inr ()))))"

section \<open>Products: PUT /api/products/[id]\<close>

text \<open>
  The request body. \<open>price\<close> and \<open>stock\<close> are \<open>None\<close> when the field is undefined; a
  number sent as a string is taken as already parsed. A missing \<open>name\<close> or
  \<open>description\<close> is the empty string, a missing \<open>category\<close> is \<open>None\<close>. For \<open>image\<close>,
  \<open>None\<close> is an undefined field, which the store's update leaves as it is, and
  \<open>Some None\<close> is \<open>null\<close>. The store refuses a \<open>stock\<close> that does not fit the 32-bit
  \<open>Int\<close> column: the update throws and nothing is written.
\<close>

definition int32 :: "int \<Rightarrow> bool" where
  "int32 i \<longleftrightarrow> - 2147483648 \<le> i \<and> i \<le> 2147483647"

record 'n ProductBody =
  b_name :: string
  b_description :: string
  b_image :: "string option option"
  b_price :: "'n option"
  b_stock :: "int option"
  b_category :: "ProductCategory option"

definition PUT_product ::
  "'n Store \<Rightarrow> Session \<Rightarrow> string \<Rightarrow> 'n ProductBody \<Rightarrow> 'n Store \<times> (error + 'n Product)" where
  "PUT_product s session productId body =
     (case session of
        None \<Rightarrow> (s, Inl Unauthorized)
      | Some u \<Rightarrow>
          if su_role u \<noteq> MANAGER \<and> su_role u \<noteq> ADMIN then (s, Inl Forbidden)
          else if productId = [] then (s, Inl ProductIdRequired)
          else (case findProduct s productId of
             None \<Rightarrow> (s, Inl ProductNotFound)
           | Some existingProduct \<Rightarrow>
               (case (b_price body, b_stock body, b_category body) of
                  (Some price, Some stock, Some category) \<Rightarrow>
                    if b_name body = [] \<or> b_description body = []
                    then (s, Inl MissingRequiredFields)
                    else if \<not> int32 stock then (s, Inl Failed)
                    else
                      (let update = (\<lambda>p. p\<lparr> p_name := b_name body,
                                               p_description := b_description body,
                                               p_image := (case b_image body of
                                                             None \<Rightarrow> p_image p
                                                           | Some img \<Rightarrow> img),
                                               p_price := price, p_stock := stock,
                                               p_category := category \<rparr>)
                       in (s\<lparr> products := map (\<lambda>p. if p_id p = productId then update p else p)
                                                (products s) \<rparr>,
                           Inr (update existingProduct)))
                | _ \<Rightarrow> (s, Inl MissingRequiredFields))))"

section \<open>Overlapping checkouts\<close>

text \<open>
  The handler awaits the store between its reads and its transaction, so two requests
  can overlap. This is the schedule in which both requests have read the store before
  either transaction runs: the transactions then run one after the other, each with
  the lines and stocks its request read at the start.
\<close>

definition racingCheckouts ::
  "'n Arith \<Rightarrow> (nat \<Rightarrow> string) \<Rightarrow> (nat \<Rightarrow> string) \<Rightarrow> 'n Store
     \<Rightarrow> Session \<Rightarrow> string \<Rightarrow> Session \<Rightarrow> string
     \<Rightarrow> 'n Store \<times> (error + 'n Order \<times> 'n OrderItem list) \<times> (error + 'n Order \<times> 'n OrderItem list)" where
  "racingCheckouts num cuid1 cuid2 s session1 addressId1 session2 addressId2 =
     (let read1 = checkoutRead num s session1 addressId1;
          read2 = checkoutRead num s session2 addressId2;
          (s1, response1) = (case read1 of Inl e \<Rightarrow> (s, Inl e) | Inr ck \<Rightarrow> checkoutTx cuid1 s ck);
          (s2, response2) = (case read2 of Inl e \<Rightarrow> (s1, Inl e) | Inr ck \<Rightarrow> checkoutTx cuid2 s1 ck)
      in (s2, response1, response2))"

section \<open>The review predicate of the specification\<close>

text \<open>
  \<open>canReview(user, product)\<close>: some order item references the product, and its order
  belongs to the user and is DELIVERED.
\<close>

definition canReview :: "'n Store \<Rightarrow> string \<Rightarrow> string \<Rightarrow> bool" where
  "canReview s userId productId =
     list_ex (\<lambda>oi. oi_productId oi = productId \<and>
                    list_ex (\<lambda>ord. o_id ord = oi_orderId oi \<and> o_userId ord = userId \<and>
                                    o_status ord = DELIVERED) (orders s))
             (orderItems s)"

section \<open>Example stores\<close>

definition alice :: SessionUser where
  "alice = \<lparr> su_id = ''alice'', su_role = CUSTOMER \<rparr>"

definition bob :: SessionUser where
  "bob = \<lparr> su_id = ''bob'', su_role = CUSTOMER \<rparr>"

definition carol :: SessionUser where
  "carol = \<lparr> su_id = ''carol'', su_role = CUSTOMER \<rparr>"

definition mia :: SessionUser where
  "mia = \<lparr> su_id = ''mia'', su_role = MANAGER \<rparr>"

text \<open>Two id generators for the rows that two requests create.\<close>

definition idsA :: "nat \<Rightarrow> string" where
  "idsA k = replicate (Suc k) (CHR ''a'')"

definition idsB :: "nat \<Rightarrow> string" where
  "idsB k = replicate (Suc k) (CHR ''b'')"

text \<open>
  The numbers of the examples are the integers 0, 1, 10 and 25, written as rationals;
  the sums and products taken of them are exact in doubles too, so the rational
  operations stand for the double ones there.
\<close>

definition exact :: "rat Arith" where
  "exact = \<lparr> n_of_int = of_int, n_add = (+), n_mul = (*) \<rparr>"

definition widget :: "rat Product" where
  "widget = \<lparr> p_id = ''p1'', p_name = ''Widget'', p_description = ''A widget'',
               p_image = None, p_price = 10, p_stock = 1, p_category = OTHER \<rparr>"

text \<open>
  One product with a single unit in stock at price 10; Alice and Bob each have it in
  their cart once; Carol has an address and no cart.
\<close>

definition shop :: "rat Store" where
  "shop = \<lparr> products = [widget], orders = [], orderItems = [], reviews = [],
             carts = [\<lparr> c_id = ''c1'', c_userId = ''alice'' \<rparr>,
                      \<lparr> c_id = ''c2'', c_userId = ''bob'' \<rparr>],
             cartItems = [\<lparr> ci_id = ''l1'', ci_cartId = ''c1'', ci_productId = ''p1'',
                            ci_quantity = 1 \<rparr>,
                          \<lparr> ci_id = ''l2'', ci_cartId = ''c2'', ci_productId = ''p1'',
                            ci_quantity = 1 \<rparr>],
             addresses = [\<lparr> a_id = ''a1'', a_userId = ''alice'' \<rparr>,
                          \<lparr> a_id = ''a2'', a_userId = ''bob'' \<rparr>,
                          \<lparr> a_id = ''a3'', a_userId = ''carol'' \<rparr>] \<rparr>"

text \<open>The same shop, with Alice asking for two units.\<close>

definition shopTwoUnits :: "rat Store" where
  "shopTwoUnits =
     shop\<lparr> cartItems := [\<lparr> ci_id = ''l1'', ci_cartId = ''c1'', ci_productId = ''p1'',
                           ci_quantity = 2 \<rparr>] \<rparr>"

text \<open>The same shop, with two lines for the product in Alice's cart.\<close>

definition shopTwoLines :: "rat Store" where
  "shopTwoLines =
     shop\<lparr> cartItems := [\<lparr> ci_id = ''l1'', ci_cartId = ''c1'', ci_productId = ''p1'',
                           ci_quantity = 1 \<rparr>,
                         \<lparr> ci_id = ''l3'', ci_cartId = ''c1'', ci_productId = ''p1'',
                           ci_quantity = 1 \<rparr>] \<rparr>"

text \<open>Alice's order of the widget has been delivered, and she has reviewed it.\<close>

definition shopDelivered :: "rat Store" where
  "shopDelivered =
     shop\<lparr> products := [widget\<lparr>p_stock := 0\<rparr>],
           orders := [\<lparr> o_id = ''o1'', o_userId = ''alice'', o_status = DELIVERED,
                        o_total = 10, o_addressId = ''a1'' \<rparr>],
           orderItems := [\<lparr> oi_id = ''i1'', oi_orderId = ''o1'', oi_productId = ''p1'',
                            oi_quantity = 1, oi_price = 10 \<rparr>],
           cartItems := [\<lparr> ci_id = ''l2'', ci_cartId = ''c2'', ci_productId = ''p1'',
                           ci_quantity = 1 \<rparr>],
           reviews := [\<lparr> r_id = ''r1'', r_userId = ''alice'', r_productId = ''p1'',
                         r_rating = 4, r_comment = Some ''fine'' \<rparr>] \<rparr>"

definition widgetBody :: "rat ProductBody" where
  "widgetBody = \<lparr> b_name = ''Widget'', b_description = ''A widget'', b_image = None,
                   b_price = Some 25, b_stock = Some 7, b_category = Some OTHER \<rparr>"

section \<open>Unfolding the definitions\<close>

lemmas examples = alice_def bob_def carol_def mia_def idsA_def idsB_def widget_def shop_def
  shopTwoUnits_def shopTwoLines_def shopDelivered_def widgetBody_def exact_def

lemmas handlers = POST_orders_def checkoutRead_def checkoutTx_def findAddress_def findCart_def
  findProduct_def includeProduct_def cartLines_def cartTotal_def decrementStock_def
  newOrderItems_def racingCheckouts_def Let_def

section \<open>Auxiliary facts\<close>

lemma find_map_same:
  "(\<And>x. P (f x) = P x) \<Longrightarrow> find P (map f xs) = map_option f (find P xs)"
  by (induction xs) auto

lemma verifyStock_find:
  "verifyStock items =
     map_option (\<lambda>(ci, p). NotEnoughStockFor (p_name p) (p_id p))
       (find (\<lambda>(ci, p). ci_quantity ci > p_stock p) items)"
  by (induction items rule: verifyStock.induct) auto

lemma verifyStock_None:
  "verifyStock items = None \<longleftrightarrow> (\<forall>(ci, p) \<in> set items. ci_quantity ci \<le> p_stock p)"
  by (induction items rule: verifyStock.induct) auto

text \<open>With exact operations the handler's fold is the sum over the lines.\<close>

lemma cartTotal_exact:
  "cartTotal exact items = (\<Sum>(ci, p) \<leftarrow> items. of_int (ci_quantity ci) * p_price p)"
proof -
  have "foldl (\<lambda>sum (ci, p). sum + p_price p * of_int (ci_quantity ci)) a items
      = a + (\<Sum>(ci, p) \<leftarrow> items. of_int (ci_quantity ci) * p_price p)" for a :: rat
    by (induction items arbitrary: a) (auto simp: algebra_simps)
  then show ?thesis by (simp add: cartTotal_def exact_def)
qed

lemma those_map_Some:
  "those (map f xs) = Some ys \<Longrightarrow> length ys = length xs \<and> (\<forall>i < length xs. f (xs ! i) = Some (ys ! i))"
proof (induction xs arbitrary: ys)
  case Nil then show ?case by simp
next
  case (Cons x xs)
  then obtain y ys' where "f x = Some y" "those (map f xs) = Some ys'" "ys = y # ys'"
    by (auto split: option.splits)
  with Cons.IH[of ys'] show ?case by (auto simp: nth_Cons split: nat.splits)
qed

lemma cartLines_product:
  assumes "cartLines s cart = Some items" "(ci, p) \<in> set items"
  shows "findProduct s (ci_productId ci) = Some p \<and> ci \<in> set (cartItems s) \<and> ci_cartId ci = c_id cart"
proof -
  let ?xs = "filter (\<lambda>ci. ci_cartId ci = c_id cart) (cartItems s)"
  from assms(1) have *: "length items = length ?xs" "\<forall>i < length ?xs. includeProduct s (?xs ! i) = Some (items ! i)"
    using those_map_Some[of "includeProduct s" ?xs items] by (auto simp: cartLines_def)
  from assms(2) obtain i where i: "i < length items" "items ! i = (ci, p)"
    by (auto simp: in_set_conv_nth)
  with * have "includeProduct s (?xs ! i) = Some (ci, p)" by auto
  then have "?xs ! i = ci" "findProduct s (ci_productId ci) = Some p"
    by (auto simp: includeProduct_def)
  moreover have "?xs ! i \<in> set ?xs" using i * by (intro nth_mem) simp
  ultimately show ?thesis by auto
qed




lemma checkoutTx_error:
  "checkoutTx cuid s ck = (s', Inl e) \<Longrightarrow> s' = s"
  by (auto simp: checkoutTx_def Let_def split: option.splits)

lemma POST_orders_error:
  "POST_orders num cuid s session addressId = (s', Inl e) \<Longrightarrow> s' = s"
  by (auto simp: POST_orders_def split: sum.splits dest: checkoutTx_error)

lemma verifyStock_violation:
  "\<exists>(ci, p) \<in> set items. ci_quantity ci > p_stock p \<Longrightarrow> \<exists>e. verifyStock items = Some e"
  using verifyStock_None[of items] by (cases "verifyStock items") auto

lemma checkoutRead_fails:
  assumes "session = Some u"
      and "findCart s (su_id u) = None
           \<or> (\<exists>cart. findCart s (su_id u) = Some cart \<and> cartLines s cart = Some [])
           \<or> findAddress s addressId (su_id u) = None
           \<or> (\<exists>cart items. findCart s (su_id u) = Some cart \<and> cartLines s cart = Some items \<and>
                 (\<exists>(ci, p) \<in> set items. ci_quantity ci > p_stock p))"
  shows "\<exists>e. checkoutRead num s session addressId = Inl e"
  using assms(2)
proof (elim disjE exE conjE)
  assume "findCart s (su_id u) = None"
  then show ?thesis using assms(1) by (simp add: checkoutRead_def split: option.splits)
next
  fix cart assume "findCart s (su_id u) = Some cart" "cartLines s cart = Some []"
  then show ?thesis using assms(1) by (simp add: checkoutRead_def split: option.splits)
next
  assume "findAddress s addressId (su_id u) = None"
  then show ?thesis using assms(1) by (simp add: checkoutRead_def)
next
  fix cart items
  assume "findCart s (su_id u) = Some cart" "cartLines s cart = Some items"
     and "\<exists>(ci, p) \<in> set items. ci_quantity ci > p_stock p"
  moreover from this(3) obtain e where "verifyStock items = Some e"
    using verifyStock_violation by blast
  ultimately show ?thesis using assms(1)
    by (simp add: checkoutRead_def split: option.splits)
qed

lemma PUT_product_frame:
  "PUT_product s session productId body = (s', r) \<Longrightarrow>
     orderItems s' = orderItems s \<and> orders s' = orders s"
  by (auto simp: PUT_product_def Let_def split: option.splits if_splits)

lemma POST_orders_success:
  assumes "POST_orders num cuid s session addressId = (s', Inr (ord, its))"
  shows "\<exists>u cart items. session = Some u \<and> findCart s (su_id u) = Some cart \<and>
           cartLines s cart = Some items \<and> its = newOrderItems cuid items \<and>
           orderItems s' = orderItems s @ its"
  using assms
  by (auto simp: POST_orders_def checkoutRead_def checkoutTx_def Let_def
           split: sum.splits option.splits if_splits)

lemma newOrderItems_line:
  assumes "oi \<in> set (newOrderItems cuid items)"
  shows "\<exists>ci p. (ci, p) \<in> set items \<and> oi_productId oi = ci_productId ci \<and>
           oi_quantity oi = ci_quantity ci \<and> oi_price oi = p_price p"
proof -
  from assms obtain k ci p where "(k, (ci, p)) \<in> set (enumerate 0 items)"
    and oi: "oi = \<lparr> oi_id = cuid (Suc k), oi_orderId = cuid 0, oi_productId = ci_productId ci,
                     oi_quantity = ci_quantity ci, oi_price = p_price p \<rparr>"
    by (auto simp: newOrderItems_def)
  then have "(ci, p) \<in> set items"
    by (metis in_set_zipE enumerate_eq_zip)
  with oi show ?thesis by auto
qed

lemma validStatuses_statusOf:
  "status \<in> set validStatuses \<Longrightarrow> \<exists>st. statusOf status = Some st"
  by (auto simp: validStatuses_def statusOf_def)

lemma find_updated_row:
  assumes "find (\<lambda>x. key x = k) xs = Some x" "\<And>y. key (f y) = key y"
  shows "find (\<lambda>x. key x = k) (map (\<lambda>y. if key y = k then f y else y) xs) = Some (f x)"
  using assms by (induction xs) (auto split: if_splits)

lemma PATCH_order_error:
  "PATCH_order s session orderId status = (s', Inl e) \<Longrightarrow> s' = s"
  by (auto simp: PATCH_order_def split: option.splits if_splits)

lemma hasPurchased_canReview:
  "hasPurchased s userId productId \<noteq> None \<longleftrightarrow> canReview s userId productId"
  by (auto simp: hasPurchased_def canReview_def find_None_iff list_ex_iff)

lemma POST_reviews_error:
  "POST_reviews newId s session productId rating comment = (s', Inl e) \<Longrightarrow> s' = s"
  by (auto simp: POST_reviews_def Let_def split: option.splits if_splits)

lemma PATCH_cart_item_error:
  "PATCH_cart_item s session itemId quantity = (s', Inl e) \<Longrightarrow> s' = s"
  by (auto simp: PATCH_cart_item_def split: option.splits if_splits)

lemma DELETE_cart_item_error:
  "DELETE_cart_item s session itemId = (s', Inl e) \<Longrightarrow> s' = s"
  by (auto simp: DELETE_cart_item_def split: option.splits if_splits)

section \<open>Checkout: the claims\<close>

text \<open>
  Claim C1. A checkout that fails validation (the caller has no cart or an empty one,
  the address is not the caller's, or some line asks for more than its product's stock)
  is answered with an error and leaves the store as it was. With a valid address, the
  first line in cart order that exceeds its stock is reported with status 400 and the
  name and id of its product. Every error response of the handler leaves the store
  unchanged.
\<close>

theorem C1_checkout_all_or_nothing:
  assumes "session = Some u"
  shows "(findCart s (su_id u) = None
           \<or> (\<exists>cart. findCart s (su_id u) = Some cart \<and> cartLines s cart = Some [])
           \<or> findAddress s addressId (su_id u) = None
           \<or> (\<exists>cart items. findCart s (su_id u) = Some cart \<and> cartLines s cart = Some items \<and>
                 (\<exists>(ci, p) \<in> set items. ci_quantity ci > p_stock p))
          \<longrightarrow> (\<exists>e. POST_orders num cuid s session addressId = (s, Inl e)))
       \<and> (\<forall>a cart items ci p.
            addressId \<noteq> [] \<and> findAddress s addressId (su_id u) = Some a \<and>
            findCart s (su_id u) = Some cart \<and> cartLines s cart = Some items \<and>
            find (\<lambda>(ci, p). ci_quantity ci > p_stock p) items = Some (ci, p)
            \<longrightarrow> POST_orders num cuid s session addressId =
                  (s, Inl (NotEnoughStockFor (p_name p) (p_id p))) \<and>
                status_code (NotEnoughStockFor (p_name p) (p_id p)) = 400)
       \<and> (\<forall>s' e. POST_orders num cuid s session addressId = (s', Inl e) \<longrightarrow> s' = s)"
proof (intro conjI impI allI)
  assume "findCart s (su_id u) = None
           \<or> (\<exists>cart. findCart s (su_id u) = Some cart \<and> cartLines s cart = Some [])
           \<or> findAddress s addressId (su_id u) = None
           \<or> (\<exists>cart items. findCart s (su_id u) = Some cart \<and> cartLines s cart = Some items \<and>
                 (\<exists>(ci, p) \<in> set items. ci_quantity ci > p_stock p))"
  from checkoutRead_fails[OF assms this, where num = num]
  show "\<exists>e. POST_orders num cuid s session addressId = (s, Inl e)"
    by (auto simp: POST_orders_def)
next
  fix a cart items ci p
  assume h: "addressId \<noteq> [] \<and> findAddress s addressId (su_id u) = Some a \<and>
            findCart s (su_id u) = Some cart \<and> cartLines s cart = Some items \<and>
            find (\<lambda>(ci, p). ci_quantity ci > p_stock p) items = Some (ci, p)"
  then have "items \<noteq> []" by auto
  with h assms
  show "POST_orders num cuid s session addressId = (s, Inl (NotEnoughStockFor (p_name p) (p_id p)))"
    by (simp add: POST_orders_def checkoutRead_def verifyStock_find)
  show "status_code (NotEnoughStockFor (p_name p) (p_id p)) = 400" by simp
next
  fix s' e assume "POST_orders num cuid s session addressId = (s', Inl e)"
  then show "s' = s" by (rule POST_orders_error)
qed

theorem C1_checkout_all_or_nothing_witness:
  "(\<exists>e. POST_orders exact idsA shopTwoUnits (Some alice) ''a1'' = (shopTwoUnits, Inl e)) \<and>
   POST_orders exact idsA shopTwoUnits (Some alice) ''a1'' =
     (shopTwoUnits, Inl (NotEnoughStockFor ''Widget'' ''p1''))"
proof -
  let ?cart = "\<lparr> c_id = ''c1'', c_userId = ''alice'' \<rparr>"
  let ?line = "\<lparr> ci_id = ''l1'', ci_cartId = ''c1'', ci_productId = ''p1'', ci_quantity = 2 \<rparr>"
  note inst = C1_checkout_all_or_nothing[where session = "Some alice" and u = alice
      and s = shopTwoUnits and addressId = "''a1''" and cuid = idsA and num = exact, OF refl]
  have cart: "findCart shopTwoUnits (su_id alice) = Some ?cart"
    by (simp add: examples handlers)
  have lines: "cartLines shopTwoUnits ?cart = Some [(?line, widget)]"
    by (simp add: examples handlers)
  have addr: "findAddress shopTwoUnits ''a1'' (su_id alice) = Some \<lparr> a_id = ''a1'', a_userId = ''alice'' \<rparr>"
    by (simp add: examples handlers)
  have viol: "find (\<lambda>(ci, p). ci_quantity ci > p_stock p) [(?line, widget)] = Some (?line, widget)"
    by (simp add: examples)
  have "\<exists>(ci, p) \<in> set [(?line, widget)]. ci_quantity ci > p_stock p"
    by (simp add: examples)
  with cart lines inst[THEN conjunct1]
  have 1: "\<exists>e. POST_orders exact idsA shopTwoUnits (Some alice) ''a1'' = (shopTwoUnits, Inl e)"
    by blast
  from inst[THEN conjunct2, THEN conjunct1] addr cart lines viol
  have "POST_orders exact idsA shopTwoUnits (Some alice) ''a1'' =
          (shopTwoUnits, Inl (NotEnoughStockFor (p_name widget) (p_id widget)))"
    by blast
  then have 2: "POST_orders exact idsA shopTwoUnits (Some alice) ''a1'' =
     (shopTwoUnits, Inl (NotEnoughStockFor ''Widget'' ''p1''))"
    by (simp add: widget_def)
  from 1 2 show ?thesis by blast
qed



text \<open>
  Claim C3. Stock does not stay non-negative under checkouts. In the example shop the
  widget has one unit. When the checkouts of Alice and Bob overlap, both pass the stock
  check against that one unit, both orders are created and both transactions decrement:
  the stock ends at -1.
  Without any overlap, one checkout of a cart that holds two lines for the widget,
  each within the stock, ends at -1 as well.
\<close>

theorem C3_stock_driven_negative:
  "map p_stock (products shop) = [1] \<and>
   map p_stock (products (fst (racingCheckouts exact idsA idsB shop (Some alice) ''a1'' (Some bob) ''a2''))) = [-1] \<and>
   map o_userId (orders (fst (racingCheckouts exact idsA idsB shop (Some alice) ''a1'' (Some bob) ''a2''))) =
     [''alice'', ''bob''] \<and>
   map p_stock (products (fst (POST_orders exact idsA shopTwoLines (Some alice) ''a1''))) = [-1]"
  by (simp add: examples handlers)

text \<open>
  Claim C4. A product update writes the product table only: the order items and the
  orders are the same rows before and after it. So the items that a checkout created
  are still in the store after a later update of any product, each with the price that
  its product had in the store the checkout ran on.
\<close>

theorem C4_price_snapshot_kept:
  assumes "POST_orders num cuid s session addressId = (s1, Inr (ord, its))"
      and "PUT_product s1 session' productId body = (s2, r)"
  shows "orderItems s2 = orderItems s1 \<and> orders s2 = orders s1 \<and>
         set its \<subseteq> set (orderItems s2) \<and>
         (\<forall>oi \<in> set its. \<exists>p. findProduct s (oi_productId oi) = Some p \<and> oi_price oi = p_price p)"
proof -
  from PUT_product_frame[OF assms(2)]
  have frame: "orderItems s2 = orderItems s1" "orders s2 = orders s1" by simp_all
  from POST_orders_success[OF assms(1)] obtain u cart items where
    lines: "cartLines s cart = Some items" and its: "its = newOrderItems cuid items"
    and app: "orderItems s1 = orderItems s @ its" by blast
  have "\<exists>p. findProduct s (oi_productId oi) = Some p \<and> oi_price oi = p_price p"
    if "oi \<in> set its" for oi
  proof -
    from that its newOrderItems_line obtain ci p where
      "(ci, p) \<in> set items" "oi_productId oi = ci_productId ci" "oi_price oi = p_price p"
      by blast
    with cartLines_product[OF lines] show ?thesis by auto
  qed
  with frame app show ?thesis by auto
qed

theorem C4_price_snapshot_kept_witness:
  "\<exists>s1 ord its s2 r.
     POST_orders exact idsA shop (Some alice) ''a1'' = (s1, Inr (ord, its)) \<and>
     PUT_product s1 (Some mia) ''p1'' widgetBody = (s2, r) \<and>
     map p_price (products shop) = [10] \<and>
     map p_price (products s2) = [25] \<and>
     orderItems s2 = its \<and> map oi_price its = [10]"
proof -
  obtain s1 ord its where 1: "POST_orders exact idsA shop (Some alice) ''a1'' = (s1, Inr (ord, its))"
    and its: "map oi_price its = [10]" and s1i: "orderItems s1 = its"
    and s1p: "map p_id (products s1) = [''p1'']"
    by (simp add: examples handlers)
  obtain s2 r where 2: "PUT_product s1 (Some mia) ''p1'' widgetBody = (s2, r)"
    by (cases "PUT_product s1 (Some mia) ''p1'' widgetBody")
  from s1p obtain q where q: "products s1 = [q]" "p_id q = ''p1''" by auto
  with 2 have p2: "map p_price (products s2) = [25]"
    by (auto simp: PUT_product_def findProduct_def mia_def widgetBody_def int32_def Let_def)
  from C4_price_snapshot_kept[OF 1 2] have "orderItems s2 = orderItems s1" by simp
  with s1i have "orderItems s2 = its" by simp
  moreover have "map p_price (products shop) = [10]" by (simp add: examples)
  ultimately show ?thesis using 1 2 its p2
    by (intro exI[of _ s1] exI[of _ ord] exI[of _ its] exI[of _ s2] exI[of _ r]) simp
qed

text \<open>
  Claim C8, as the handler orders its checks: the address is checked before the cart.
  A caller whose cart is missing or empty is told that the cart is empty only when the
  supplied address id is present and belongs to the caller; a missing address id and an
  address of someone else are reported first.
\<close>

theorem C8_error_for_empty_cart:
  assumes "session = Some u"
      and "findCart s (su_id u) = None
           \<or> (\<exists>cart. findCart s (su_id u) = Some cart \<and> cartLines s cart = Some [])"
  shows "POST_orders num cuid s session addressId =
           (s, Inl (if addressId = [] then AddressRequired
                    else if findAddress s addressId (su_id u) = None then InvalidAddress
                    else CartEmpty))"
  using assms by (auto simp: POST_orders_def checkoutRead_def split: option.splits)

theorem C8_error_for_empty_cart_witness:
  "POST_orders exact idsA shop (Some carol) ''a3'' = (shop, Inl CartEmpty) \<and>
   POST_orders exact idsA shop (Some carol) [] = (shop, Inl AddressRequired)"
proof -
  have cart: "findCart shop (su_id carol) = None
           \<or> (\<exists>cart. findCart shop (su_id carol) = Some cart \<and> cartLines shop cart = Some [])"
    by (simp add: examples handlers)
  have addr: "findAddress shop ''a3'' (su_id carol) \<noteq> None"
    by (simp add: examples handlers)
  from C8_error_for_empty_cart[where cuid = idsA and num = exact and addressId = "''a3''",
         OF refl cart] addr
       C8_error_for_empty_cart[where cuid = idsA and num = exact and addressId = "[]",
         OF refl cart]
  show ?thesis by simp
qed

text \<open>
  Carol has no cart and names Alice's address: the response is the address error, not
  the empty-cart error.
\<close>

theorem C8_address_checked_first:
  "findCart shop (su_id carol) = None \<and>
   snd (POST_orders exact idsA shop (Some carol) ''a1'') = Inl InvalidAddress \<and>
   snd (POST_orders exact idsA shop (Some carol) ''a1'') \<noteq> Inl CartEmpty"
  by (simp add: examples handlers)

section \<open>Order status: the claims\<close>

text \<open>
  Claim C5, as the handler behaves: no status is terminal for it. For every existing
  order, whatever its current status, a request of a MANAGER or ADMIN that names one of
  the five recognised statuses sets the order's status to the named one and returns the
  updated order; a request that is answered with an error leaves the store unchanged.
\<close>

theorem C5_status_overwritten:
  assumes "session = Some u" "su_role u = MANAGER \<or> su_role u = ADMIN" "orderId \<noteq> []"
      and "status \<in> set validStatuses" "findOrder s orderId = Some ord"
  shows "\<exists>st s'. statusOf status = Some st \<and>
           PATCH_order s session orderId status = (s', Inr (ord\<lparr>o_status := st\<rparr>)) \<and>
           findOrder s' orderId = Some (ord\<lparr>o_status := st\<rparr>) \<and>
           map o_id (orders s') = map o_id (orders s) \<and>
           (\<forall>t s'' e. PATCH_order s session orderId t = (s'', Inl e) \<longrightarrow> s'' = s)"
proof -
  from assms(4) obtain st where st: "statusOf status = Some st"
    using validStatuses_statusOf by blast
  let ?s' = "s\<lparr> orders := map (\<lambda>ord. if o_id ord = orderId then ord\<lparr>o_status := st\<rparr> else ord)
                              (orders s) \<rparr>"
  from assms(4) have ne: "status \<noteq> []" by (auto simp: validStatuses_def)
  from assms st ne have r: "PATCH_order s session orderId status = (?s', Inr (ord\<lparr>o_status := st\<rparr>))"
    by (auto simp: PATCH_order_def)
  from assms(5) have "findOrder ?s' orderId = Some (ord\<lparr>o_status := st\<rparr>)"
    unfolding findOrder_def
    using find_updated_row[of o_id orderId "orders s" ord "\<lambda>x. x\<lparr>o_status := st\<rparr>"] by simp
  moreover have "map o_id (orders ?s') = map o_id (orders s)"
    by (simp add: comp_def if_distrib cong: if_cong)
  ultimately show ?thesis using st r PATCH_order_error by blast
qed

theorem C5_status_overwritten_witness:
  "\<exists>s'. PATCH_order shopDelivered (Some mia) ''o1'' ''CANCELLED'' =
          (s', Inr \<lparr> o_id = ''o1'', o_userId = ''alice'', o_status = CANCELLED,
                     o_total = 10, o_addressId = ''a1'' \<rparr>) \<and>
        map o_status (orders shopDelivered) = [DELIVERED] \<and>
        map o_id (orders s') = [''o1'']"
proof -
  let ?ord = "\<lparr> o_id = ''o1'', o_userId = ''alice'', o_status = DELIVERED,
                 o_total = 10, o_addressId = ''a1'' \<rparr>"
  have role: "su_role mia = MANAGER \<or> su_role mia = ADMIN" by (simp add: mia_def)
  have valid: "''CANCELLED'' \<in> set validStatuses" by (simp add: validStatuses_def)
  have found: "findOrder shopDelivered ''o1'' = Some ?ord"
    by (simp add: findOrder_def examples)
  from C5_status_overwritten[OF refl role _ valid found]
  obtain st s' where "statusOf ''CANCELLED'' = Some st"
    and "PATCH_order shopDelivered (Some mia) ''o1'' ''CANCELLED'' = (s', Inr (?ord\<lparr>o_status := st\<rparr>))"
    and "map o_id (orders s') = map o_id (orders shopDelivered)"
    by auto
  moreover have "statusOf ''CANCELLED'' = Some CANCELLED" by (simp add: statusOf_def)
  moreover have "map o_id (orders shopDelivered) = [''o1'']"
    "map o_status (orders shopDelivered) = [DELIVERED]" by (simp_all add: examples)
  ultimately show ?thesis by (intro exI[of _ s']) simp
qed

text \<open>
  Alice's order is DELIVERED; the manager's request for PENDING is accepted and the
  order is PENDING afterwards.
\<close>

theorem C5_delivered_reopened:
  "map o_status (orders shopDelivered) = [DELIVERED] \<and>
   map o_status (orders (fst (PATCH_order shopDelivered (Some mia) ''o1'' ''PENDING''))) = [PENDING]"
  by (simp add: examples PATCH_order_def findOrder_def validStatuses_def statusOf_def)

section \<open>Reviews: the claims\<close>

text \<open>
  Claim C6. For a signed-in CUSTOMER and an existing product: with a rating from 1 to 5
  the submission succeeds exactly when \<open>canReview\<close> holds, that is when some order item
  references the product and its order is the caller's and DELIVERED; without such an
  order the response is the 403 error and the store, so the reviews, is unchanged; a
  rating below 1 or above 5 gets the rating error (400) and changes nothing.
\<close>

theorem C6_review_gating:
  assumes "session = Some u" "su_role u = CUSTOMER" "productId \<noteq> []"
      and "findProduct s productId = Some product"
  shows "(1 \<le> rating \<and> rating \<le> 5 \<longrightarrow>
            ((\<exists>s' review code. POST_reviews newId s session productId rating comment =
                                  (s', Inr (review, code)))
               \<longleftrightarrow> canReview s (su_id u) productId) \<and>
            (\<not> canReview s (su_id u) productId \<longrightarrow>
               POST_reviews newId s session productId rating comment = (s, Inl NotPurchased) \<and>
               status_code NotPurchased = 403))
       \<and> (rating < 1 \<or> rating > 5 \<longrightarrow>
            POST_reviews newId s session productId rating comment = (s, Inl RatingOutOfRange) \<and>
            status_code RatingOutOfRange = 400)"
proof (intro conjI impI)
  assume "rating < 1 \<or> rating > 5"
  with assms show "POST_reviews newId s session productId rating comment = (s, Inl RatingOutOfRange)"
    by (auto simp: POST_reviews_def)
  show "status_code RatingOutOfRange = 400" by simp
next
  assume r: "1 \<le> rating \<and> rating \<le> 5"
  show "(\<exists>s' review code. POST_reviews newId s session productId rating comment =
                                  (s', Inr (review, code)))
               \<longleftrightarrow> canReview s (su_id u) productId"
    using assms r hasPurchased_canReview[of s "su_id u" productId]
    by (auto simp: POST_reviews_def Let_def split: option.splits)
next
  assume r: "1 \<le> rating \<and> rating \<le> 5" and "\<not> canReview s (su_id u) productId"
  then have "hasPurchased s (su_id u) productId = None"
    using hasPurchased_canReview[of s "su_id u" productId] by simp
  with assms r show "POST_reviews newId s session productId rating comment = (s, Inl NotPurchased)"
    by (auto simp: POST_reviews_def)
  show "status_code NotPurchased = 403" by simp
qed

theorem C6_review_gating_witness:
  "canReview shopDelivered ''alice'' ''p1'' \<and>
   (\<exists>s' review code. POST_reviews ''r2'' shopDelivered (Some alice) ''p1'' 5 None =
                        (s', Inr (review, code))) \<and>
   \<not> canReview shopDelivered ''bob'' ''p1'' \<and>
   POST_reviews ''r2'' shopDelivered (Some bob) ''p1'' 5 None = (shopDelivered, Inl NotPurchased) \<and>
   POST_reviews ''r2'' shopDelivered (Some bob) ''p1'' 6 None = (shopDelivered, Inl RatingOutOfRange)"
proof -
  have prod: "findProduct shopDelivered ''p1'' = Some (widget\<lparr>p_stock := 0\<rparr>)"
    by (simp add: findProduct_def examples)
  have a: "canReview shopDelivered (su_id alice) ''p1''"
    and b: "\<not> canReview shopDelivered (su_id bob) ''p1''"
    by (simp_all add: canReview_def examples)
  have ra: "su_role alice = CUSTOMER" and rb: "su_role bob = CUSTOMER"
    by (simp_all add: examples)
  have ids: "su_id alice = ''alice''" "su_id bob = ''bob''" by (simp_all add: examples)
  note A = C6_review_gating[OF refl ra _ prod, of 5 "''r2''" None]
  note B = C6_review_gating[OF refl rb _ prod, of 5 "''r2''" None]
  note B6 = C6_review_gating[OF refl rb _ prod, of 6 "''r2''" None]
  from A a have 1: "\<exists>s' review code. POST_reviews ''r2'' shopDelivered (Some alice) ''p1'' 5 None =
                        (s', Inr (review, code))" by simp
  from B b have 2: "POST_reviews ''r2'' shopDelivered (Some bob) ''p1'' 5 None = (shopDelivered, Inl NotPurchased)"
    by simp
  from B6 have 3: "POST_reviews ''r2'' shopDelivered (Some bob) ''p1'' 6 None = (shopDelivered, Inl RatingOutOfRange)"
    by simp
  from a b 1 2 3 show ?thesis unfolding ids by simp
qed

text \<open>
  Claim C7. When the caller is eligible and already has a review of the product, the
  submission is answered with 200 and the existing review carrying the new rating and
  comment. No row is inserted: the table keeps its length, its ids, authors and
  products, so the number of reviews of the product is the same; the caller's review of
  the product is now the updated one, and every row with another id is untouched.
\<close>

theorem C7_review_updated_in_place:
  assumes "session = Some u" "su_role u = CUSTOMER" "productId \<noteq> []"
      and "1 \<le> rating" "rating \<le> 5"
      and "findProduct s productId = Some product"
      and "canReview s (su_id u) productId"
      and "findReview s (su_id u) productId = Some existing"
  shows "\<exists>s'. POST_reviews newId s session productId rating comment =
                 (s', Inr (existing\<lparr>r_rating := rating, r_comment := comment\<rparr>, 200)) \<and>
              length (reviews s') = length (reviews s) \<and>
              map (\<lambda>r. (r_id r, r_userId r, r_productId r)) (reviews s') =
                map (\<lambda>r. (r_id r, r_userId r, r_productId r)) (reviews s) \<and>
              length (filter (\<lambda>r. r_productId r = productId) (reviews s')) =
                length (filter (\<lambda>r. r_productId r = productId) (reviews s)) \<and>
              findReview s' (su_id u) productId =
                Some (existing\<lparr>r_rating := rating, r_comment := comment\<rparr>) \<and>
              (\<forall>i < length (reviews s). r_id (reviews s ! i) \<noteq> r_id existing \<longrightarrow>
                 reviews s' ! i = reviews s ! i)"
proof -
  let ?upd = "\<lambda>r. if r_id r = r_id existing
                   then r\<lparr>r_rating := rating, r_comment := comment\<rparr> else r"
  let ?s' = "s\<lparr> reviews := map ?upd (reviews s) \<rparr>"
  from assms(7) obtain item where item: "hasPurchased s (su_id u) productId = Some item"
    using hasPurchased_canReview[of s "su_id u" productId] by auto
  from assms item
  have r: "POST_reviews newId s session productId rating comment =
             (?s', Inr (existing\<lparr>r_rating := rating, r_comment := comment\<rparr>, 200))"
    by (simp add: POST_reviews_def)
  have keys: "map (\<lambda>r. (r_id r, r_userId r, r_productId r)) (reviews ?s') =
                map (\<lambda>r. (r_id r, r_userId r, r_productId r)) (reviews s)"
    by (simp add: comp_def if_distrib cong: if_cong)
  have "filter (\<lambda>r. r_productId r = productId) (map ?upd (reviews s)) =
          map ?upd (filter (\<lambda>r. r_productId r = productId) (reviews s))"
    by (simp add: filter_map comp_def if_distrib cong: if_cong)
  then have cnt: "length (filter (\<lambda>r. r_productId r = productId) (reviews ?s')) =
                length (filter (\<lambda>r. r_productId r = productId) (reviews s))"
    by simp
  have "find (\<lambda>r. r_userId r = su_id u \<and> r_productId r = productId) (map ?upd (reviews s)) =
          map_option ?upd (find (\<lambda>r. r_userId r = su_id u \<and> r_productId r = productId) (reviews s))"
    by (rule find_map_same) simp
  with assms(8) have fnd: "findReview ?s' (su_id u) productId =
                Some (existing\<lparr>r_rating := rating, r_comment := comment\<rparr>)"
    by (simp add: findReview_def)
  have rest: "\<forall>i < length (reviews s). r_id (reviews s ! i) \<noteq> r_id existing \<longrightarrow>
                 reviews ?s' ! i = reviews s ! i"
    by simp
  from r keys cnt fnd rest show ?thesis
    by (intro exI[of _ ?s']) simp
qed

theorem C7_review_updated_in_place_witness:
  "\<exists>s'. POST_reviews ''r2'' shopDelivered (Some alice) ''p1'' 2 (Some ''meh'') =
           (s', Inr (\<lparr> r_id = ''r1'', r_userId = ''alice'', r_productId = ''p1'',
                        r_rating = 2, r_comment = Some ''meh'' \<rparr>, 200)) \<and>
        length (reviews shopDelivered) = 1 \<and> length (reviews s') = 1"
proof -
  let ?old = "\<lparr> r_id = ''r1'', r_userId = ''alice'', r_productId = ''p1'',
                 r_rating = 4, r_comment = Some ''fine'' \<rparr>"
  have role: "su_role alice = CUSTOMER" by (simp add: alice_def)
  have prod: "findProduct shopDelivered ''p1'' = Some (widget\<lparr>p_stock := 0\<rparr>)"
    by (simp add: findProduct_def examples)
  have can: "canReview shopDelivered (su_id alice) ''p1''"
    by (simp add: canReview_def examples)
  have old: "findReview shopDelivered (su_id alice) ''p1'' = Some ?old"
    by (simp add: findReview_def examples)
  have len: "length (reviews shopDelivered) = 1" by (simp add: examples)
  from C7_review_updated_in_place[OF refl role _ _ _ prod can old, of 2 "''r2''" "Some ''meh''"]
  obtain s' where "POST_reviews ''r2'' shopDelivered (Some alice) ''p1'' 2 (Some ''meh'') =
                 (s', Inr (?old\<lparr>r_rating := 2, r_comment := Some ''meh''\<rparr>, 200))"
    and "length (reviews s') = length (reviews shopDelivered)"
    by auto
  with len show ?thesis by (intro exI[of _ s']) simp
qed

text \<open>
  Claim C10. A submission of a signed-in CUSTOMER that names a product id and carries a
  rating from 1 to 5 is answered with 'Product not found' (404) when no product has
  that id, whatever orders and order items the store holds: the purchase check is not
  reached, and the store is unchanged.
\<close>

theorem C10_review_unknown_product:
  assumes "session = Some u" "su_role u = CUSTOMER" "productId \<noteq> []"
      and "1 \<le> rating" "rating \<le> 5" "findProduct s productId = None"
  shows "POST_reviews newId s session productId rating comment = (s, Inl ProductNotFound) \<and>
         status_code ProductNotFound = 404"
  using assms by (auto simp: POST_reviews_def)

theorem C10_review_unknown_product_witness:
  "POST_reviews ''r2'' shopDelivered (Some alice) ''p9'' 5 None =
     (shopDelivered, Inl ProductNotFound)"
proof -
  have role: "su_role alice = CUSTOMER" by (simp add: alice_def)
  have none: "findProduct shopDelivered ''p9'' = None"
    by (simp add: findProduct_def examples)
  from C10_review_unknown_product[OF refl role _ _ _ none, of 5 "''r2''" None]
  show ?thesis by simp
qed

section \<open>Cart lines: the claims\<close>

text \<open>
  Claim C9, as the handlers answer: a signed-in caller who names an existing cart line
  of someone else's cart is refused and the store is unchanged, but the response is
  'Unauthorized' with status 401, the one an unauthenticated caller gets. DELETE
  answers so always; PATCH answers so when the quantity is at least 1 (the line's
  product row existing), a smaller quantity being refused first with status 400.
\<close>

theorem C9_foreign_line_refused:
  assumes "session = Some u" "findCartItem s itemId = Some cartItem"
      and "cartById s (ci_cartId cartItem) = Some cart" "c_userId cart \<noteq> su_id u"
  shows "DELETE_cart_item s session itemId = (s, Inl Unauthorized) \<and>
         status_code Unauthorized = 401 \<and>
         (\<exists>e. PATCH_cart_item s session itemId quantity = (s, Inl e)) \<and>
         (1 \<le> quantity \<and> findProduct s (ci_productId cartItem) \<noteq> None \<longrightarrow>
            PATCH_cart_item s session itemId quantity = (s, Inl Unauthorized)) \<and>
         (quantity < 1 \<longrightarrow>
            PATCH_cart_item s session itemId quantity = (s, Inl ValidQuantityRequired) \<and>
            status_code ValidQuantityRequired = 400)"
  using assms
  by (auto simp: DELETE_cart_item_def PATCH_cart_item_def split: option.splits)

theorem C9_foreign_line_refused_witness:
  "DELETE_cart_item shop (Some bob) ''l1'' = (shop, Inl Unauthorized) \<and>
   PATCH_cart_item shop (Some bob) ''l1'' 1 = (shop, Inl Unauthorized) \<and>
   PATCH_cart_item shop (Some bob) ''l1'' 0 = (shop, Inl ValidQuantityRequired)"
proof -
  let ?line = "\<lparr> ci_id = ''l1'', ci_cartId = ''c1'', ci_productId = ''p1'', ci_quantity = 1 \<rparr>"
  let ?cart = "\<lparr> c_id = ''c1'', c_userId = ''alice'' \<rparr>"
  have line: "findCartItem shop ''l1'' = Some ?line" by (simp add: findCartItem_def examples)
  have cart: "cartById shop (ci_cartId ?line) = Some ?cart" by (simp add: cartById_def examples)
  have other: "c_userId ?cart \<noteq> su_id bob" by (simp add: bob_def)
  have prod: "findProduct shop (ci_productId ?line) \<noteq> None" by (simp add: findProduct_def examples)
  from C9_foreign_line_refused[OF refl line cart other, of 1] prod
       C9_foreign_line_refused[OF refl line cart other, of 0]
  show ?thesis by simp
qed

text \<open>
  Bob names Alice's cart line: both handlers answer 'Unauthorized', whose status is 401
  and not 403.
\<close>

theorem C9_status_is_401:
  "DELETE_cart_item shop (Some bob) ''l1'' = (shop, Inl Unauthorized) \<and>
   PATCH_cart_item shop (Some bob) ''l1'' 1 = (shop, Inl Unauthorized) \<and>
   status_code Unauthorized = 401 \<and> status_code Unauthorized \<noteq> 403"
  by (simp add: DELETE_cart_item_def PATCH_cart_item_def findCartItem_def cartById_def
        findProduct_def examples)

end
